theory Spec2Isabelle
  imports Main
begin

section \<open>Kurento Media Server: \<^verbatim>\<open>src/server/main.cpp\<close>\<close>

text \<open>
  The file under verification is the entry point of the media server. It loads a GLib
  key file into three file-scope globals, starts a Thrift \<^verbatim>\<open>TNonblockingServer\<close> on a
  worker thread, and runs a GLib main loop that a signal handler can ask to quit.

  The libraries it calls (GLib, glibmm, GStreamer's SDP parser, Thrift, libc) are not part
  of the repository. Their results enter the model as fields of the record \<open>extern\<close>;
  the in-memory shape of a \<^verbatim>\<open>GKeyFile\<close> is modelled after GLib's own data structure
  (a list of groups, newest first, each holding its key/value pairs, newest first, with
  comment lines kept as pairs without a key).
\<close>

subsection \<open>Constants of \<^verbatim>\<open>media_config.hpp\<close> and of system headers\<close>

text \<open>
  \<^verbatim>\<open>media_config.hpp\<close> is not among the sources, so the macros it defines are the fields
  of a parameter \<open>C\<close> of every function that uses them.
\<close>

record media_config =
  SERVER_GROUP :: string
  MEDIA_SERVER_ADDRESS_KEY :: string
  MEDIA_SERVER_SERVICE_PORT_KEY :: string
  SDP_PATTERN_KEY :: string
  MEDIA_SERVER_ADDRESS :: string
  MEDIA_SERVER_SERVICE_PORT :: int
  DEFAULT_CONFIG_FILE :: string

definition G_MAXUSHORT :: int where
  "G_MAXUSHORT = 65535"

text \<open>Signal numbers of \<^verbatim>\<open>signal.h\<close> on Linux.\<close>

definition SIGINT :: int where "SIGINT = 2"
definition SIGKILL :: int where "SIGKILL = 9"
definition SIGSEGV :: int where "SIGSEGV = 11"
definition SIGPIPE :: int where "SIGPIPE = 13"
definition SIGCONT :: int where "SIGCONT = 18"

subsection \<open>Results of calls that may throw or fault\<close>

text \<open>
  A call that may throw a \<^verbatim>\<open>Glib::KeyFileError\<close> returns a sum: \<open>Inl\<close> the error
  thrown, \<open>Inr\<close> the value returned. A call that may also run into behaviour that C
  leaves undefined (here: a stream function applied to a null \<^verbatim>\<open>FILE *\<close>) returns a
  \<open>result\<close>; the program does not continue in any defined way after \<open>Fault\<close>.
\<close>

datatype key_file_error =
  UNKNOWN_ENCODING | PARSE | NOT_FOUND | KEY_NOT_FOUND | GROUP_NOT_FOUND | INVALID_VALUE

datatype 'a result = Return 'a | Throw key_file_error | Fault

subsection \<open>\<^verbatim>\<open>Glib::KeyFile\<close>\<close>

text \<open>
  GLib keeps a key file as a list of groups, the group added last at the head; each group
  keeps its lines the same way. A line is a key with its raw value, or a comment (also a
  blank line): then the key is null. The comments above the first group header sit in a
  group without a name. Looking a key up finds the line added last; setting a value
  overwrites that line, or adds a line (and the group, when it is new) at the head.
\<close>

datatype key_value_pair =
  Key_value_pair (pair_key: "string option") (pair_value: string)

datatype key_file_group =
  Group (group_name: "string option") (key_value_pairs: "key_value_pair list")

type_synonym key_file = "key_file_group list"

definition lookup_group :: "key_file \<Rightarrow> string \<Rightarrow> key_file_group option" where
  "lookup_group kf g = find (\<lambda>gr. group_name gr = Some g) kf"

definition lookup_key_value_pair :: "key_file_group \<Rightarrow> string \<Rightarrow> key_value_pair option" where
  "lookup_key_value_pair gr k = find (\<lambda>p. pair_key p = Some k) (key_value_pairs gr)"

definition get_value :: "key_file \<Rightarrow> string \<Rightarrow> string \<Rightarrow> key_file_error + string" where
  "get_value kf g k =
     (case lookup_group kf g of
        None \<Rightarrow> Inl GROUP_NOT_FOUND
      | Some gr \<Rightarrow>
          (case lookup_key_value_pair gr k of
             None \<Rightarrow> Inl KEY_NOT_FOUND
           | Some p \<Rightarrow> Inr (pair_value p)))"

fun set_pair :: "string \<Rightarrow> string \<Rightarrow> key_value_pair list \<Rightarrow> key_value_pair list" where
  "set_pair k v [] = []"
| "set_pair k v (p # ps) =
     (if pair_key p = Some k then Key_value_pair (Some k) v # ps else p # set_pair k v ps)"

definition set_in_group :: "string \<Rightarrow> string \<Rightarrow> key_file_group \<Rightarrow> key_file_group" where
  "set_in_group k v gr =
     (case lookup_key_value_pair gr k of
        None \<Rightarrow> Group (group_name gr) (Key_value_pair (Some k) v # key_value_pairs gr)
      | Some p \<Rightarrow> Group (group_name gr) (set_pair k v (key_value_pairs gr)))"

fun set_in_groups :: "string \<Rightarrow> string \<Rightarrow> string \<Rightarrow> key_file \<Rightarrow> key_file" where
  "set_in_groups g k v [] = []"
| "set_in_groups g k v (gr # grs) =
     (if group_name gr = Some g then set_in_group k v gr # grs
      else gr # set_in_groups g k v grs)"

definition set_value :: "key_file \<Rightarrow> string \<Rightarrow> string \<Rightarrow> string \<Rightarrow> key_file" where
  "set_value kf g k v =
     (case lookup_group kf g of
        None \<Rightarrow> Group (Some g) [Key_value_pair (Some k) v] # kf
      | Some gr \<Rightarrow> set_in_groups g k v kf)"

subsection \<open>What the libraries and the operating system return\<close>

text \<open>
  \<open>key_file_load\<close> is \<^verbatim>\<open>KeyFile::load_from_file\<close> on the text of a file that could be
  opened, with the flags the program passes (keep comments, keep translations): the key
  file read, or the value \<^verbatim>\<open>false\<close>, or a thrown \<^verbatim>\<open>Glib::Error\<close>. \<open>key_file_to_data\<close>
  is \<^verbatim>\<open>KeyFile::to_data\<close>. \<open>parse_value_as_string\<close> and \<open>parse_value_as_integer\<close> turn
  the raw text of a value into a string or a \<^verbatim>\<open>gint\<close> (they throw on a text they cannot
  read), \<open>parse_string_as_value\<close> and \<open>parse_integer_as_value\<close> go the other way.
  \<open>open_for_writing\<close> says whether a \<^verbatim>\<open>std::ofstream\<close> on a path opens; when it does
  not, the program goes on and what it writes to the stream is lost.
  \<open>sdp_message_new\<close> says whether \<^verbatim>\<open>gst_sdp_message_new\<close> succeeds,
  \<open>sdp_message_parse_buffer\<close> is GStreamer's SDP parser, given the buffer (\<open>None\<close>: a
  null pointer) with length -1; its result \<open>None\<close> is any result but \<^verbatim>\<open>GST_SDP_OK\<close>.
  \<open>bytes_after_buffer\<close> is what lies in memory behind the buffer of
  \<^verbatim>\<open>read_entire_file\<close>.
  \<open>backtrace_symbols\<close> is the stack at a signal (address and symbol text of each frame),
  \<open>readlink_exe\<close> the target of \<^verbatim>\<open>/proc/<pid>/exe\<close> (\<open>None\<close>: \<^verbatim>\<open>readlink\<close> returns -1),
  and \<open>serve\<close> says how \<^verbatim>\<open>TNonblockingServer::serve\<close> ends.
\<close>

datatype load_result = Loaded key_file | Not_loaded | Load_error

datatype serve_outcome = Bind_failed | Accept_loop_exited | Serving

record 'sdp extern =
  key_file_load :: "string \<Rightarrow> load_result"
  key_file_to_data :: "key_file \<Rightarrow> string"
  parse_value_as_string :: "string \<Rightarrow> key_file_error + string"
  parse_string_as_value :: "string \<Rightarrow> string"
  parse_value_as_integer :: "string \<Rightarrow> key_file_error + int"
  parse_integer_as_value :: "int \<Rightarrow> string"
  open_for_writing :: "string \<Rightarrow> bool"
  sdp_message_new :: bool
  sdp_message_parse_buffer :: "string option \<Rightarrow> 'sdp option"
  bytes_after_buffer :: string
  backtrace_symbols :: "(nat \<times> string) list"
  readlink_exe :: "string option"
  serve :: serve_outcome

definition get_string ::
  "'sdp extern \<Rightarrow> key_file \<Rightarrow> string \<Rightarrow> string \<Rightarrow> key_file_error + string" where
  "get_string E kf g k =
     (case get_value kf g k of
        Inl e \<Rightarrow> Inl e
      | Inr v \<Rightarrow> parse_value_as_string E v)"

definition get_integer ::
  "'sdp extern \<Rightarrow> key_file \<Rightarrow> string \<Rightarrow> string \<Rightarrow> key_file_error + int" where
  "get_integer E kf g k =
     (case get_value kf g k of
        Inl e \<Rightarrow> Inl e
      | Inr v \<Rightarrow> parse_value_as_integer E v)"

definition set_string ::
  "'sdp extern \<Rightarrow> key_file \<Rightarrow> string \<Rightarrow> string \<Rightarrow> string \<Rightarrow> key_file" where
  "set_string E kf g k s = set_value kf g k (parse_string_as_value E s)"

definition set_integer ::
  "'sdp extern \<Rightarrow> key_file \<Rightarrow> string \<Rightarrow> string \<Rightarrow> int \<Rightarrow> key_file" where
  "set_integer E kf g k n = set_value kf g k (parse_integer_as_value E n)"

definition load_from_file ::
  "'sdp extern \<Rightarrow> (string \<rightharpoonup> string) \<Rightarrow> string \<Rightarrow> load_result" where
  "load_from_file E fs file_name =
     (case fs file_name of
        None \<Rightarrow> Load_error
      | Some data \<Rightarrow> key_file_load E data)"

subsection \<open>The state of the process\<close>

text \<open>
  The file-scope variables of \<^verbatim>\<open>main.cpp\<close> (\<open>serverAddress\<close>, \<open>serverServicePort\<close>,
  \<open>sdpPattern\<close>, \<open>configFile\<close>, \<open>loop\<close>, \<open>p_server\<close>, and the \<^verbatim>\<open>static char *exe\<close> of
  \<^verbatim>\<open>getExecutableName\<close>), followed by what the process does to its surroundings: the
  files it can open (path to content), everything it prints, logs, runs or signals, in
  order, whether it has exited, and where the worker thread is.

  A main loop is its \<^verbatim>\<open>is_running\<close> flag and the idle sources attached to its context;
  the only callback this program ever connects is \<^verbatim>\<open>quit_loop\<close>. A log event carries the
  format string of the call.
\<close>

datatype callback = Quit_loop

record main_loop =
  is_running :: bool
  sources :: "callback list"

record tnonblocking_server =
  port :: int

datatype log_level = ERROR | WARNING | INFO | DEBUG

datatype event =
    Gst_log log_level string
  | Printf_got_signal int
  | Printf_got_signal_faulty_address int nat
  | G_print_execution_path
  | G_print_frame nat string
  | System_addr2line nat string
  | Fprintf_stderr string
  | Kill_parent int
  | Listen int bool

datatype status = Running | Exited int

datatype worker_status = Not_started | In_serve | Thread_exit | Uncaught_exception

record 'sdp state =
  serverAddress :: string
  serverServicePort :: int
  sdpPattern :: "'sdp option"
  configFile :: key_file
  loop :: main_loop
  p_server :: "tnonblocking_server option"
  exe :: "string option"
  files :: "string \<rightharpoonup> string"
  events :: "event list"
  process :: status
  worker :: worker_status

definition gst_log :: "log_level \<Rightarrow> string \<Rightarrow> 'sdp state \<Rightarrow> 'sdp state" where
  "gst_log l m s = s\<lparr>events := events s @ [Gst_log l m]\<rparr>"

text \<open>
  What a function that can hit undefined behaviour leaves: the state it returns with, or
  the state at the point of the fault.
\<close>

datatype 'a outcome = Returned 'a | Faulted 'a

subsection \<open>Loading the configuration\<close>

definition check_port :: "int \<Rightarrow> key_file_error + unit" where
  "check_port port' =
     (if port' \<le> 0 \<or> port' > G_MAXUSHORT then Inl PARSE else Inr ())"

definition set_default_server_config :: "media_config \<Rightarrow> 'sdp state \<Rightarrow> 'sdp state" where
  "set_default_server_config C s =
     s\<lparr>serverAddress := MEDIA_SERVER_ADDRESS C,
       serverServicePort := MEDIA_SERVER_SERVICE_PORT C\<rparr>"

text \<open>
  \<^verbatim>\<open>read_entire_file\<close> hands the result of \<^verbatim>\<open>fopen\<close> to \<^verbatim>\<open>fseek\<close>, \<^verbatim>\<open>ftell\<close>, \<^verbatim>\<open>fread\<close>
  and \<^verbatim>\<open>fclose\<close> without looking at it. When the file cannot be opened that is a null
  stream, and the first of these calls is undefined. Otherwise it returns a buffer of
  exactly the size of the file, holding the file's bytes and no terminating zero; for an
  empty file \<^verbatim>\<open>g_malloc0 (0)\<close> is the null pointer (\<open>None\<close>).
\<close>

definition read_entire_file :: "(string \<rightharpoonup> string) \<Rightarrow> string \<Rightarrow> string option result" where
  "read_entire_file fs file_name =
     (case fs file_name of
        None \<Rightarrow> Fault
      | Some data \<Rightarrow> Return (if data = [] then None else Some data))"

text \<open>
  The pointer that \<^verbatim>\<open>load_sdp_pattern\<close> returns is an option: \<open>None\<close> is \<^verbatim>\<open>NULL\<close>.
  The function logs, so it returns the state as well. It gives the parser the buffer
  with length -1, and the buffer is not terminated: the parser reads the file's bytes and
  then whatever lies behind them.
\<close>

definition load_sdp_pattern ::
  "media_config \<Rightarrow> 'sdp extern \<Rightarrow> key_file \<Rightarrow> 'sdp state \<Rightarrow> 'sdp option result \<times> 'sdp state" where
  "load_sdp_pattern C E kf s =
     (let s = gst_log DEBUG ''Load SDP Pattern'' s in
      if \<not> sdp_message_new E then
        (Return None, gst_log ERROR ''Error creating sdp message'' s)
      else
        (case get_string E kf (SERVER_GROUP C) (SDP_PATTERN_KEY C) of
           Inl err \<Rightarrow> (Throw err, s)
         | Inr sdp_pattern_file_name \<Rightarrow>
             (case read_entire_file (files s) sdp_pattern_file_name of
                Fault \<Rightarrow> (Fault, s)
              | Throw err \<Rightarrow> (Throw err, s)
              | Return sdp_pattern_text \<Rightarrow>
                  (case sdp_message_parse_buffer E
                          (case sdp_pattern_text of
                             None \<Rightarrow> None
                           | Some buffer \<Rightarrow> Some (buffer @ bytes_after_buffer E)) of
                     None \<Rightarrow> (Return None, gst_log ERROR ''Error parsing SDP config pattern'' s)
                   | Some sdp_pattern \<Rightarrow> (Return (Some sdp_pattern), s)))))"

text \<open>
  The three \<^verbatim>\<open>try\<close> blocks of \<^verbatim>\<open>load_config\<close> that read the address, the port and
  the SDP pattern, each with its \<^verbatim>\<open>catch\<close>.
\<close>

definition load_config_address :: "media_config \<Rightarrow> 'sdp extern \<Rightarrow> 'sdp state \<Rightarrow> 'sdp state" where
  "load_config_address C E s =
     (case get_string E (configFile s) (SERVER_GROUP C) (MEDIA_SERVER_ADDRESS_KEY C) of
        Inr a \<Rightarrow> s\<lparr>serverAddress := a\<rparr>
      | Inl err \<Rightarrow>
          (let s = gst_log INFO ''%s'' s;
               s = gst_log INFO ''Setting default address'' s;
               s = s\<lparr>configFile := set_string E (configFile s) (SERVER_GROUP C)
                                     (MEDIA_SERVER_ADDRESS_KEY C) (MEDIA_SERVER_ADDRESS C)\<rparr>
           in s\<lparr>serverAddress := MEDIA_SERVER_ADDRESS C\<rparr>))"

definition load_config_port_catch :: "media_config \<Rightarrow> 'sdp extern \<Rightarrow> 'sdp state \<Rightarrow> 'sdp state" where
  "load_config_port_catch C E s =
     (let s = gst_log INFO ''%s'' s;
          s = gst_log INFO ''Setting default server port'' s;
          s = s\<lparr>configFile := set_integer E (configFile s) (SERVER_GROUP C)
                                (MEDIA_SERVER_SERVICE_PORT_KEY C) (MEDIA_SERVER_SERVICE_PORT C)\<rparr>
      in s\<lparr>serverServicePort := MEDIA_SERVER_SERVICE_PORT C\<rparr>)"

definition load_config_port :: "media_config \<Rightarrow> 'sdp extern \<Rightarrow> 'sdp state \<Rightarrow> 'sdp state" where
  "load_config_port C E s =
     (case get_integer E (configFile s) (SERVER_GROUP C) (MEDIA_SERVER_SERVICE_PORT_KEY C) of
        Inl err \<Rightarrow> load_config_port_catch C E s
      | Inr port' \<Rightarrow>
          (case check_port port' of
             Inl err \<Rightarrow> load_config_port_catch C E s
           | Inr u \<Rightarrow> s\<lparr>serverServicePort := port'\<rparr>))"

text \<open>
  \<^verbatim>\<open>gst_sdp_message_as_text\<close> returns null on a null message, and the text it returns is
  only logged and freed.
\<close>

definition load_config_sdp :: "media_config \<Rightarrow> 'sdp extern \<Rightarrow> 'sdp state \<Rightarrow> 'sdp state outcome" where
  "load_config_sdp C E s =
     (case load_sdp_pattern C E (configFile s) s of
        (Fault, s) \<Rightarrow> Faulted s
      | (Throw err, s) \<Rightarrow>
          Returned (gst_log WARNING
                      ''Wrong codec configuration, communication won't be possible''
                      (gst_log WARNING ''%s'' s))
      | (Return p, s) \<Rightarrow> Returned (gst_log DEBUG ''SDP: \<newline>%s'' (s\<lparr>sdpPattern := p\<rparr>)))"

text \<open>
  The end of \<^verbatim>\<open>load_config\<close>: the key file is printed over the file it was read from.
  The stream is not looked at: when it did not open, nothing is written and the function
  goes on to its end all the same.
\<close>

definition load_config_save :: "'sdp extern \<Rightarrow> string \<Rightarrow> 'sdp state \<Rightarrow> 'sdp state" where
  "load_config_save E file_name s =
     (let s = (if open_for_writing E file_name
               then s\<lparr>files := (files s)(file_name \<mapsto> key_file_to_data E (configFile s))\<rparr>
               else s);
          s = gst_log INFO ''Configuration loaded successfully'' s
      in gst_log DEBUG ''Final config file:\<newline>%s'' s)"

text \<open>
  The opening block of \<^verbatim>\<open>load_config\<close>: for a file that cannot be opened for reading
  a \<^verbatim>\<open>std::ofstream\<close> is opened and closed, which creates the file, empty, when the
  stream opens.
\<close>

definition load_config_open :: "'sdp extern \<Rightarrow> string \<Rightarrow> 'sdp state \<Rightarrow> 'sdp state" where
  "load_config_open E file_name s =
     (let s = gst_log INFO ''Reading configuration from: %s'' s
      in if files s file_name = None
         then (let s = gst_log INFO ''Config file not found, creating a new one'' s
               in if open_for_writing E file_name
                  then s\<lparr>files := (files s)(file_name \<mapsto> [])\<rparr>
                  else s)
         else s)"

text \<open>
  \<^verbatim>\<open>load_config\<close>. When \<^verbatim>\<open>load_from_file\<close> fails, \<open>configFile\<close> holds whatever GLib
  left in it; the program does not read it again, and the model leaves the field as it
  was.
\<close>

definition load_config ::
  "media_config \<Rightarrow> 'sdp extern \<Rightarrow> string \<Rightarrow> 'sdp state \<Rightarrow> 'sdp state outcome" where
  "load_config C E file_name s =
     (let s = load_config_open E file_name s
      in case load_from_file E (files s) file_name of
           Not_loaded \<Rightarrow>
             Returned (set_default_server_config C
               (gst_log WARNING
                  ''Error loading configuration from %s, loading default server config, but no codecs will be available''
                  s))
         | Load_error \<Rightarrow>
             Returned (set_default_server_config C
               (gst_log WARNING
                  ''Error loading configuration from %s, loading default server config, but no codecs will be available''
                  (gst_log WARNING ''Error loading configuration: %s'' s)))
         | Loaded kf \<Rightarrow>
             (case load_config_sdp C E
                     (load_config_port C E (load_config_address C E (s\<lparr>configFile := kf\<rparr>))) of
                Faulted s \<Rightarrow> Faulted s
              | Returned s \<Rightarrow> Returned (load_config_save E file_name s)))"

subsection \<open>The service on the worker thread\<close>

text \<open>
  \<^verbatim>\<open>create_media_server_service\<close> is the body of the worker thread. The constructor of
  \<^verbatim>\<open>TNonblockingServer\<close> stores the port it is given; the socket is created, bound and
  listened on inside \<^verbatim>\<open>serve\<close>, which throws when that fails and otherwise runs the
  accept loop. \<open>Listen p ok\<close> is that attempt on port \<open>p\<close>. The thread pool is started and
  handed to the server; it has no part in what follows and is left out.
\<close>

definition create_media_server_service ::
  "media_config \<Rightarrow> 'sdp extern \<Rightarrow> 'sdp state \<Rightarrow> 'sdp state" where
  "create_media_server_service C E s =
     (let port' = MEDIA_SERVER_SERVICE_PORT C;
          server = \<lparr>port = port'\<rparr>;
          s = s\<lparr>p_server := Some server\<rparr>;
          s = gst_log INFO ''Starting MediaServerService'' s;
          s = s\<lparr>events := events s @ [Kill_parent SIGCONT]\<rparr>
      in case serve E of
           Bind_failed \<Rightarrow>
             s\<lparr>events := events s @ [Listen (port server) False], worker := Uncaught_exception\<rparr>
         | Serving \<Rightarrow>
             s\<lparr>events := events s @ [Listen (port server) True], worker := In_serve\<rparr>
         | Accept_loop_exited \<Rightarrow>
             (let s = s\<lparr>events := events s @ [Listen (port server) True]\<rparr>;
                  s = gst_log INFO ''MediaServerService stopped finishing thread'' s
              in s\<lparr>worker := Thread_exit\<rparr>))"

subsection \<open>The signal handler\<close>

text \<open>
  \<^verbatim>\<open>getExecutableName\<close> returns the cached name, or reads it with \<^verbatim>\<open>readlink\<close>; when
  that fails \<^verbatim>\<open>initialiseExecutableName\<close> calls \<^verbatim>\<open>exit (1)\<close> and nothing is returned.
\<close>

definition initialiseExecutableName :: "'sdp extern \<Rightarrow> 'sdp state \<Rightarrow> string option \<times> 'sdp state" where
  "initialiseExecutableName E s =
     (case readlink_exe E of
        None \<Rightarrow>
          (None, s\<lparr>events := events s @ [Fprintf_stderr ''ERROR GETTING NAME\<newline>''],
                   process := Exited 1\<rparr>)
      | Some name \<Rightarrow> (Some name, s))"

definition getExecutableName :: "'sdp extern \<Rightarrow> 'sdp state \<Rightarrow> string option \<times> 'sdp state" where
  "getExecutableName E s =
     (case exe s of
        Some name \<Rightarrow> (Some name, s)
      | None \<Rightarrow>
          (case initialiseExecutableName E s of
             (None, s) \<Rightarrow> (None, s)
           | (Some aux, s) \<Rightarrow> (Some aux, s\<lparr>exe := Some aux\<rparr>)))"

text \<open>
  The \<^verbatim>\<open>for\<close> loop over the frames, from index 1. \<^verbatim>\<open>g_strsplit\<close> cuts the symbol text
  at its first \<^verbatim>\<open>(\<close>; without one the executable's own name is used (the symbol
  texts that \<^verbatim>\<open>backtrace_symbols\<close> returns are not empty). The result says whether the
  loop ran to its end (\<open>True\<close>) or the process exited inside it.
\<close>

fun bt_frames :: "'sdp extern \<Rightarrow> nat \<Rightarrow> (nat \<times> string) list \<Rightarrow> 'sdp state \<Rightarrow> bool \<times> 'sdp state" where
  "bt_frames E i [] s = (True, s)"
| "bt_frames E i ((addr, message) # frames) s =
     (let s = s\<lparr>events := events s @ [G_print_frame i message]\<rparr> in
      if CHR ''('' \<in> set message then
        bt_frames E (Suc i) frames
          (s\<lparr>events := events s @
                [System_addr2line addr (takeWhile (\<lambda>c. c \<noteq> CHR ''('') message)]\<rparr>)
      else
        (case getExecutableName E s of
           (None, s) \<Rightarrow> (False, s)
         | (Some name, s) \<Rightarrow>
             bt_frames E (Suc i) frames
               (s\<lparr>events := events s @ [System_addr2line addr name]\<rparr>)))"

definition attach_idle_source :: "callback \<Rightarrow> 'sdp state \<Rightarrow> 'sdp state" where
  "attach_idle_source cb s = s\<lparr>loop := (loop s)\<lparr>sources := sources (loop s) @ [cb]\<rparr>\<rparr>"

text \<open>
  \<^verbatim>\<open>bt_sighandler\<close>, from the signal number and \<^verbatim>\<open>info->si_addr\<close>. Its second half
  (the backtrace, then the test for \<^verbatim>\<open>SIGPIPE\<close>) is \<open>bt_sighandler_trace\<close>; the branch
  for \<^verbatim>\<open>SIGKILL\<close> and \<^verbatim>\<open>SIGINT\<close> returns before it.
\<close>

definition bt_sighandler_trace :: "'sdp extern \<Rightarrow> int \<Rightarrow> 'sdp state \<Rightarrow> 'sdp state" where
  "bt_sighandler_trace E sig s =
     (let trace = take 35 (backtrace_symbols E);
          s = s\<lparr>events := events s @ [G_print_execution_path]\<rparr>
      in case bt_frames E 1 (drop 1 trace) s of
           (False, s) \<Rightarrow> s
         | (True, s) \<Rightarrow>
             (if sig = SIGPIPE then gst_log DEBUG ''Ignore sigpipe'' s
              else s\<lparr>process := Exited sig\<rparr>))"

definition bt_sighandler :: "'sdp extern \<Rightarrow> int \<Rightarrow> nat \<Rightarrow> 'sdp state \<Rightarrow> 'sdp state" where
  "bt_sighandler E sig si_addr s =
     (if sig = SIGSEGV then
        bt_sighandler_trace E sig
          (s\<lparr>events := events s @ [Printf_got_signal_faulty_address sig si_addr]\<rparr>)
      else if sig = SIGKILL \<or> sig = SIGINT then
        attach_idle_source Quit_loop s
      else
        bt_sighandler_trace E sig (s\<lparr>events := events s @ [Printf_got_signal sig]\<rparr>))"

subsection \<open>The main loop\<close>

text \<open>
  \<^verbatim>\<open>quit_loop\<close> is the callback of the idle source: it stops the loop and returns
  \<^verbatim>\<open>FALSE\<close>, which removes the source. One iteration of the context dispatches every
  attached idle source. \<^verbatim>\<open>loop->run ()\<close> sets the flag and iterates while it is set; it
  need not return, so it is given fuel, and \<open>None\<close> says the fuel ran out before it did.
\<close>

definition quit_loop :: "'sdp state \<Rightarrow> bool \<times> 'sdp state" where
  "quit_loop s = (False, s\<lparr>loop := (loop s)\<lparr>is_running := False\<rparr>\<rparr>)"

fun invoke :: "callback \<Rightarrow> 'sdp state \<Rightarrow> bool \<times> 'sdp state" where
  "invoke Quit_loop s = quit_loop s"

fun dispatch :: "callback list \<Rightarrow> 'sdp state \<Rightarrow> callback list \<times> 'sdp state" where
  "dispatch [] s = ([], s)"
| "dispatch (cb # cbs) s =
     (case invoke cb s of
        (again, s) \<Rightarrow>
          (case dispatch cbs s of
             (keep, s) \<Rightarrow> (if again then cb # keep else keep, s)))"

definition main_context_iteration :: "'sdp state \<Rightarrow> 'sdp state" where
  "main_context_iteration s =
     (case dispatch (sources (loop s)) s of
        (keep, s) \<Rightarrow> s\<lparr>loop := (loop s)\<lparr>sources := keep\<rparr>\<rparr>)"

fun iterate_while_running :: "nat \<Rightarrow> 'sdp state \<Rightarrow> 'sdp state option" where
  "iterate_while_running 0 s = None"
| "iterate_while_running (Suc n) s =
     (if is_running (loop s) then iterate_while_running n (main_context_iteration s)
      else Some s)"

definition main_loop_run :: "nat \<Rightarrow> 'sdp state \<Rightarrow> 'sdp state option" where
  "main_loop_run n s = iterate_while_running n (s\<lparr>loop := (loop s)\<lparr>is_running := True\<rparr>\<rparr>)"

subsection \<open>\<^verbatim>\<open>main\<close>\<close>

text \<open>
  \<^verbatim>\<open>main\<close> installs \<^verbatim>\<open>bt_sighandler\<close>, loads the configuration from the file named on
  the command line or from the default one, creates the worker thread and runs the loop;
  when the loop returns it returns 0. The state before \<^verbatim>\<open>main\<close>: the globals are
  zero-initialised and the loop is created with its flag set.
\<close>

definition initial_state :: "(string \<rightharpoonup> string) \<Rightarrow> 'sdp state" where
  "initial_state fs =
     \<lparr>serverAddress = [], serverServicePort = 0, sdpPattern = None, configFile = [],
      loop = \<lparr>is_running = True, sources = []\<rparr>, p_server = None, exe = None,
      files = fs, events = [], process = Running, worker = Not_started\<rparr>"

definition main_load_config ::
  "media_config \<Rightarrow> 'sdp extern \<Rightarrow> string option \<Rightarrow> 'sdp state \<Rightarrow> 'sdp state outcome" where
  "main_load_config C E conf_file s =
     (case conf_file of
        None \<Rightarrow> load_config C E (DEFAULT_CONFIG_FILE C) s
      | Some f \<Rightarrow> load_config C E f s)"

definition main_run_loop :: "nat \<Rightarrow> 'sdp state \<Rightarrow> 'sdp state option" where
  "main_run_loop n s =
     (case main_loop_run n s of
        None \<Rightarrow> None
      | Some s \<Rightarrow> Some (s\<lparr>process := Exited 0\<rparr>))"

text \<open>
  The state a function leaves, returned or not; whether it returned; and the value a
  call returns, if it returns one.
\<close>

fun final :: "'a outcome \<Rightarrow> 'a" where
  "final (Returned s) = s"
| "final (Faulted s) = s"

fun returns :: "'a outcome \<Rightarrow> bool" where
  "returns (Returned s) = True"
| "returns (Faulted s) = False"

fun returned :: "key_file_error + 'a \<Rightarrow> 'a option" where
  "returned (Inl err) = None"
| "returned (Inr x) = Some x"

subsection \<open>Notions the properties are stated with\<close>

text \<open>
  \<open>config_text\<close> is the text of the configuration file, or nothing when there is no
  file. \<open>config_load\<close> is what \<^verbatim>\<open>load_from_file\<close> makes of the file: of its text when
  there is one, of the empty text when the file is missing and can be created, and an
  error when it is missing and cannot. \<open>sdp_pattern_opens\<close> says that the file a key file
  names as its SDP pattern, if it names one, is there to be opened. \<open>file_port\<close> is the port a key file asks for: what its
  port key reads as, when that is an integer from 1 to 65535. \<open>other_lines\<close> is a key file
  without the lines of the address key and the port key in the server group: every
  comment, every other key and every other group, in their order;
  \<open>other_lines_of_file\<close> is the same of a file: of the key file that the file loads as.
\<close>

definition config_text :: "'sdp state \<Rightarrow> string \<Rightarrow> string" where
  "config_text s file_name = (case files s file_name of None \<Rightarrow> [] | Some data \<Rightarrow> data)"

definition config_load :: "'sdp extern \<Rightarrow> 'sdp state \<Rightarrow> string \<Rightarrow> load_result" where
  "config_load E s file_name =
     (case files s file_name of
        Some data \<Rightarrow> key_file_load E data
      | None \<Rightarrow> if open_for_writing E file_name then key_file_load E [] else Load_error)"


definition file_port :: "media_config \<Rightarrow> 'sdp extern \<Rightarrow> key_file \<Rightarrow> int option" where
  "file_port C E kf =
     (case returned (get_integer E kf (SERVER_GROUP C) (MEDIA_SERVER_SERVICE_PORT_KEY C)) of
        None \<Rightarrow> None
      | Some n \<Rightarrow> if 1 \<le> n \<and> n \<le> 65535 then Some n else None)"





subsection \<open>An installation to run the functions on\<close>

text \<open>
  Values for the macros, and stand-ins for the libraries that know a few configuration
  files and a handful of value texts; they serve to evaluate the functions at examples.
  One file, \<^verbatim>\<open>readonly.conf\<close>, cannot be opened for writing.
\<close>

definition example_config :: media_config where
  "example_config =
     \<lparr>SERVER_GROUP = ''Server'',
      MEDIA_SERVER_ADDRESS_KEY = ''serverAddress'',
      MEDIA_SERVER_SERVICE_PORT_KEY = ''serverPort'',
      SDP_PATTERN_KEY = ''sdpPattern'',
      MEDIA_SERVER_ADDRESS = ''localhost'',
      MEDIA_SERVER_SERVICE_PORT = 9090,
      DEFAULT_CONFIG_FILE = ''kurento.conf''\<rparr>"

definition example_text :: string where
  "example_text = ''#kms\<newline>[Server]\<newline>serverPort=9191\<newline>sdpPattern=pattern.sdp\<newline>[Other]\<newline>x=1\<newline>''"

definition example_key_file :: key_file where
  "example_key_file =
     [Group (Some ''Other'') [Key_value_pair (Some ''x'') ''1''],
      Group (Some ''Server'')
        [Key_value_pair (Some ''sdpPattern'') ''pattern.sdp'',
         Key_value_pair (Some ''serverPort'') ''9191''],
      Group None [Key_value_pair None ''#kms'']]"

definition example_text_defaults :: string where
  "example_text_defaults = ''#kms\<newline>[Server]\<newline>serverPort=9090\<newline>serverAddress=localhost\<newline>[Other]\<newline>x=1\<newline>''"

definition example_key_file_defaults :: key_file where
  "example_key_file_defaults =
     [Group (Some ''Other'') [Key_value_pair (Some ''x'') ''1''],
      Group (Some ''Server'')
        [Key_value_pair (Some ''serverAddress'') ''localhost'',
         Key_value_pair (Some ''serverPort'') ''9090''],
      Group None [Key_value_pair None ''#kms'']]"

definition example_text_no_address :: string where
  "example_text_no_address = ''[Server]\<newline>serverAddress=\<newline>serverPort=0\<newline>''"

definition example_key_file_no_address :: key_file where
  "example_key_file_no_address =
     [Group (Some ''Server'')
        [Key_value_pair (Some ''serverPort'') ''0'',
         Key_value_pair (Some ''serverAddress'') []]]"

definition example_text_port_zero :: string where
  "example_text_port_zero = ''#kms\<newline>[Server]\<newline>serverPort=0\<newline>[Other]\<newline>x=1\<newline>''"

definition example_key_file_port_zero :: key_file where
  "example_key_file_port_zero =
     [Group (Some ''Other'') [Key_value_pair (Some ''x'') ''1''],
      Group (Some ''Server'') [Key_value_pair (Some ''serverPort'') ''0''],
      Group None [Key_value_pair None ''#kms'']]"

fun example_line :: "key_value_pair \<Rightarrow> string" where
  "example_line (Key_value_pair None v) = v @ ''\<newline>''"
| "example_line (Key_value_pair (Some k) v) = k @ ''='' @ v @ ''\<newline>''"

fun example_group :: "key_file_group \<Rightarrow> string" where
  "example_group (Group None ps) = concat (map example_line (rev ps))"
| "example_group (Group (Some g) ps) =
     ''['' @ g @ '']\<newline>'' @ concat (map example_line (rev ps))"

definition example_extern :: "string extern" where
  "example_extern =
     \<lparr>key_file_load =
        (\<lambda>data. if data = example_text then Loaded example_key_file
                 else if data = example_text_port_zero then Loaded example_key_file_port_zero
                 else if data = example_text_defaults then Loaded example_key_file_defaults
                 else if data = example_text_no_address then Loaded example_key_file_no_address
                 else if data = [] then Loaded []
                 else Load_error),
      key_file_to_data = (\<lambda>kf. concat (map example_group (rev kf))),
      parse_value_as_string = Inr,
      parse_string_as_value = (\<lambda>v. v),
      parse_value_as_integer =
        (\<lambda>v. if v = ''9191'' then Inr 9191
              else if v = ''0'' then Inr 0
              else if v = ''70000'' then Inr 70000
              else Inl INVALID_VALUE),
      parse_integer_as_value = (\<lambda>n. if n = 9090 then ''9090'' else ''?''),
      open_for_writing = (\<lambda>file_name. file_name \<noteq> ''readonly.conf''),
      sdp_message_new = True,
      sdp_message_parse_buffer =
        (\<lambda>buffer. if buffer = Some ''v=0\<newline>'' then Some ''v=0\<newline>'' else None),
      bytes_after_buffer = [],
      backtrace_symbols =
        [(4198400, ''kurento(bt_sighandler+0x20) [0x401000]''),
         (4198656, ''kurento(main+0x10) [0x401100]''),
         (4198912, ''[0x401200]'')],
      readlink_exe = Some ''/usr/bin/kurento'',
      serve = Serving\<rparr>"

definition example_files :: "string \<rightharpoonup> string" where
  "example_files =
     [''kurento.conf'' \<mapsto> example_text, ''pattern.sdp'' \<mapsto> ''v=0\<newline>'',
      ''zero.conf'' \<mapsto> example_text_port_zero, ''broken.conf'' \<mapsto> ''[Server'',
      ''readonly.conf'' \<mapsto> example_text_no_address]"

definition example_state :: "string state" where
  "example_state = initial_state example_files"

section \<open>Properties\<close>

subsection \<open>Looking up and setting values of a key file\<close>

lemma find_set_pair:
  "find (\<lambda>p. pair_key p = Some k') (set_pair k v ps) =
     (if k' = k
      then (case find (\<lambda>p. pair_key p = Some k) ps of
              None \<Rightarrow> None
            | Some p \<Rightarrow> Some (Key_value_pair (Some k) v))
      else find (\<lambda>p. pair_key p = Some k') ps)"
  by (induction ps) auto

lemma group_name_set_in_group: "group_name (set_in_group k v gr) = group_name gr"
  by (simp add: set_in_group_def split: option.splits)

lemma lookup_set_in_group:
  "lookup_key_value_pair (set_in_group k v gr) k' =
     (if k' = k then Some (Key_value_pair (Some k) v) else lookup_key_value_pair gr k')"
  by (auto simp: set_in_group_def lookup_key_value_pair_def find_set_pair split: option.splits)

lemma lookup_group_set_in_groups:
  "lookup_group (set_in_groups g k v kf) g' =
     (if g' = g then map_option (set_in_group k v) (lookup_group kf g)
      else lookup_group kf g')"
  by (induction kf) (auto simp: lookup_group_def group_name_set_in_group)

lemma lookup_group_Cons_new:
  "lookup_group (Group (Some g) ps # kf) g' =
     (if g' = g then Some (Group (Some g) ps) else lookup_group kf g')"
  by (auto simp: lookup_group_def)

lemma lookup_single_pair:
  "lookup_key_value_pair (Group n [Key_value_pair (Some k) v]) k' =
     (if k' = k then Some (Key_value_pair (Some k) v) else None)"
  by (auto simp: lookup_key_value_pair_def)


lemma get_value_set_value_other:
  assumes "g' \<noteq> g \<or> k' \<noteq> k"
  shows "returned (get_value (set_value kf g k v) g' k') = returned (get_value kf g' k')"
proof (cases "lookup_group kf g")
  case None
  with assms show ?thesis
    by (auto simp: get_value_def set_value_def lookup_group_Cons_new lookup_single_pair)
next
  case (Some gr)
  with assms show ?thesis
    by (auto simp: get_value_def set_value_def lookup_group_set_in_groups lookup_set_in_group
          split: option.splits)
qed


lemma returned_get_integer:
  "returned (get_integer E kf g k) =
     (case returned (get_value kf g k) of
        None \<Rightarrow> None
      | Some v \<Rightarrow> returned (parse_value_as_integer E v))"
  by (cases "get_value kf g k") (simp_all add: get_integer_def)


subsection \<open>The stages of \<^verbatim>\<open>load_config\<close>\<close>

lemma gst_log_fields [simp]:
  "serverAddress (gst_log l m s) = serverAddress s"
  "serverServicePort (gst_log l m s) = serverServicePort s"
  "sdpPattern (gst_log l m s) = sdpPattern s"
  "configFile (gst_log l m s) = configFile s"
  "loop (gst_log l m s) = loop s"
  "p_server (gst_log l m s) = p_server s"
  "exe (gst_log l m s) = exe s"
  "files (gst_log l m s) = files s"
  "process (gst_log l m s) = process s"
  "worker (gst_log l m s) = worker s"
  "events (gst_log l m s) = events s @ [Gst_log l m]"
  by (simp_all add: gst_log_def)

lemma load_sdp_pattern_fields:
  "serverAddress (snd (load_sdp_pattern C E kf s)) = serverAddress s"
  "serverServicePort (snd (load_sdp_pattern C E kf s)) = serverServicePort s"
  "configFile (snd (load_sdp_pattern C E kf s)) = configFile s"
  "files (snd (load_sdp_pattern C E kf s)) = files s"
  by (simp_all add: load_sdp_pattern_def Let_def split: sum.splits result.splits option.splits)

lemma load_config_sdp_fields:
  "serverAddress (final (load_config_sdp C E s)) = serverAddress s"
  "serverServicePort (final (load_config_sdp C E s)) = serverServicePort s"
  "configFile (final (load_config_sdp C E s)) = configFile s"
  "files (final (load_config_sdp C E s)) = files s"
proof -
  obtain r s1 where r: "load_sdp_pattern C E (configFile s) s = (r, s1)"
    by (cases "load_sdp_pattern C E (configFile s) s")
  have s1: "s1 = snd (load_sdp_pattern C E (configFile s) s)"
    by (simp add: r)
  show "serverAddress (final (load_config_sdp C E s)) = serverAddress s"
    "serverServicePort (final (load_config_sdp C E s)) = serverServicePort s"
    "configFile (final (load_config_sdp C E s)) = configFile s"
    "files (final (load_config_sdp C E s)) = files s"
    using load_sdp_pattern_fields [of C E "configFile s" s]
    by (simp_all add: load_config_sdp_def r s1 [symmetric] split: result.splits)
qed

lemma load_config_save_fields:
  "serverAddress (load_config_save E f s) = serverAddress s"
  "serverServicePort (load_config_save E f s) = serverServicePort s"
  "configFile (load_config_save E f s) = configFile s"
  "files (load_config_save E f s) =
     (if open_for_writing E f then (files s)(f \<mapsto> key_file_to_data E (configFile s))
      else files s)"
  by (simp_all add: load_config_save_def Let_def)



lemma check_port_cases: "check_port n = (if 1 \<le> n \<and> n \<le> 65535 then Inr () else Inl PARSE)"
  by (auto simp: check_port_def G_MAXUSHORT_def)

lemma load_config_port_port:
  "serverServicePort (load_config_port C E s) =
     (case file_port C E (configFile s) of
        None \<Rightarrow> MEDIA_SERVER_SERVICE_PORT C
      | Some p \<Rightarrow> p)"
  by (cases "get_integer E (configFile s) (SERVER_GROUP C) (MEDIA_SERVER_SERVICE_PORT_KEY C)")
     (simp_all add: load_config_port_def load_config_port_catch_def Let_def file_port_def
        check_port_cases)



lemma load_config_address_configFile:
  "configFile (load_config_address C E s) =
     (case returned (get_string E (configFile s) (SERVER_GROUP C) (MEDIA_SERVER_ADDRESS_KEY C)) of
        None \<Rightarrow> set_string E (configFile s) (SERVER_GROUP C)
                  (MEDIA_SERVER_ADDRESS_KEY C) (MEDIA_SERVER_ADDRESS C)
      | Some a \<Rightarrow> configFile s)"
  by (cases "get_string E (configFile s) (SERVER_GROUP C) (MEDIA_SERVER_ADDRESS_KEY C)")
     (simp_all add: load_config_address_def Let_def)


lemma load_config_open_fields:
  "serverAddress (load_config_open E f s) = serverAddress s"
  "serverServicePort (load_config_open E f s) = serverServicePort s"
  "configFile (load_config_open E f s) = configFile s"
  by (simp_all add: load_config_open_def Let_def)

lemma load_from_file_open:
  "load_from_file E (files (load_config_open E f s)) f = config_load E s f"
  by (simp add: load_from_file_def load_config_open_def config_load_def Let_def
        split: option.splits)



lemma file_port_set_string:
  assumes "MEDIA_SERVER_ADDRESS_KEY C \<noteq> MEDIA_SERVER_SERVICE_PORT_KEY C"
  shows "file_port C E (set_string E kf (SERVER_GROUP C) (MEDIA_SERVER_ADDRESS_KEY C) a) =
         file_port C E kf"
  using assms
  by (simp add: file_port_def returned_get_integer set_string_def get_value_set_value_other)

lemma file_port_after_address:
  assumes "MEDIA_SERVER_ADDRESS_KEY C \<noteq> MEDIA_SERVER_SERVICE_PORT_KEY C"
  shows "file_port C E (configFile (load_config_address C E s)) = file_port C E (configFile s)"
  using assms
  by (simp add: load_config_address_configFile file_port_set_string split: option.splits)

lemma load_config_port_result:
  assumes "MEDIA_SERVER_ADDRESS_KEY C \<noteq> MEDIA_SERVER_SERVICE_PORT_KEY C"
  shows "serverServicePort (final (load_config C E f s)) =
     (case config_load E s f of
        Loaded kf \<Rightarrow>
          (case file_port C E kf of None \<Rightarrow> MEDIA_SERVER_SERVICE_PORT C | Some p \<Rightarrow> p)
      | Not_loaded \<Rightarrow> MEDIA_SERVER_SERVICE_PORT C
      | Load_error \<Rightarrow> MEDIA_SERVER_SERVICE_PORT C)"
proof (cases "config_load E s f")
  case (Loaded kf)
  let ?s2 = "load_config_port C E (load_config_address C E ((load_config_open E f s)\<lparr>configFile := kf\<rparr>))"
  have "serverServicePort (final (load_config C E f s)) = serverServicePort ?s2"
    using load_config_sdp_fields(2) [of C E ?s2]
    by (cases "load_config_sdp C E ?s2")
       (simp_all add: load_config_def load_from_file_open Loaded load_config_save_fields)
  also have "\<dots> = (case file_port C E kf of None \<Rightarrow> MEDIA_SERVER_SERVICE_PORT C | Some p \<Rightarrow> p)"
    using assms by (simp add: load_config_port_port file_port_after_address)
  finally show ?thesis by (simp add: Loaded)
next
  case Not_loaded
  then show ?thesis
    by (simp add: load_config_def load_from_file_open set_default_server_config_def)
next
  case Load_error
  then show ?thesis
    by (simp add: load_config_def load_from_file_open set_default_server_config_def)
qed

lemma file_port_range: "file_port C E kf = Some p \<Longrightarrow> 1 \<le> p \<and> p \<le> 65535"
  by (auto simp: file_port_def split: option.splits if_splits)

text \<open>
  Claim C5. Whatever \<^verbatim>\<open>load_config\<close> meets (a file that is missing, a file that does
  not load, a port key that is missing or not valid) it leaves \<open>serverServicePort\<close>
  between 1 and 65535: the port the file asks for when it asks for a valid one, the
  compiled default otherwise. The default has to lie in that range itself, and the address
  key and the port key have to be two keys. The state spoken of is the one
  \<^verbatim>\<open>load_config\<close> returns with, or the one it has reached when \<^verbatim>\<open>load_sdp_pattern\<close>
  faults.
\<close>

theorem load_config_port_in_range:
  assumes "1 \<le> MEDIA_SERVER_SERVICE_PORT C" and "MEDIA_SERVER_SERVICE_PORT C \<le> 65535"
    and "MEDIA_SERVER_ADDRESS_KEY C \<noteq> MEDIA_SERVER_SERVICE_PORT_KEY C"
  shows "1 \<le> serverServicePort (final (load_config C E file_name s)) \<and>
         serverServicePort (final (load_config C E file_name s)) \<le> 65535 \<and>
         serverServicePort (final (load_config C E file_name s)) =
           (case config_load E s file_name of
              Loaded kf \<Rightarrow>
                (case file_port C E kf of None \<Rightarrow> MEDIA_SERVER_SERVICE_PORT C | Some p \<Rightarrow> p)
            | Not_loaded \<Rightarrow> MEDIA_SERVER_SERVICE_PORT C
            | Load_error \<Rightarrow> MEDIA_SERVER_SERVICE_PORT C)"
  using assms file_port_range [of C E]
  by (auto simp: load_config_port_result split: load_result.splits option.splits)














lemma example_load_zero:
  "config_load example_extern example_state ''zero.conf'' = Loaded example_key_file_port_zero"
  by (simp add: example_extern_def config_load_def example_state_def initial_state_def
        example_files_def example_text_def example_text_port_zero_def)

lemma example_file_port_zero:
  "file_port example_config example_extern example_key_file_port_zero = None"
  by (simp add: file_port_def get_integer_def get_value_def lookup_group_def
        lookup_key_value_pair_def example_key_file_port_zero_def example_config_def
        example_extern_def)

theorem load_config_port_in_range_witness:
  "1 \<le> MEDIA_SERVER_SERVICE_PORT example_config \<and>
   MEDIA_SERVER_SERVICE_PORT example_config \<le> 65535 \<and>
   MEDIA_SERVER_ADDRESS_KEY example_config \<noteq> MEDIA_SERVER_SERVICE_PORT_KEY example_config \<and>
   serverServicePort (final (load_config example_config example_extern ''zero.conf''
     example_state)) = 9090"
  using load_config_port_in_range [of example_config example_extern "''zero.conf''" example_state]
    example_load_zero example_file_port_zero
  by (simp add: example_config_def)

subsection \<open>Lines that \<^verbatim>\<open>load_config\<close> does not touch\<close>











subsection \<open>Evaluating the functions on the example installation\<close>

lemmas model_defs =
  load_config_def load_config_open_def load_from_file_def load_config_address_def
  load_config_port_def load_config_port_catch_def load_config_sdp_def load_config_save_def
  load_sdp_pattern_def read_entire_file_def get_string_def get_integer_def get_value_def
  set_string_def set_integer_def set_value_def set_in_group_def lookup_group_def
  lookup_key_value_pair_def check_port_def G_MAXUSHORT_def set_default_server_config_def
  gst_log_def Let_def

lemmas example_defs =
  example_config_def example_extern_def example_files_def example_state_def initial_state_def
  example_text_def example_key_file_def example_text_port_zero_def
  example_key_file_port_zero_def example_text_defaults_def example_key_file_defaults_def
  example_text_no_address_def example_key_file_no_address_def

lemma example_zero_returns:
  "returns (load_config example_config example_extern ''zero.conf'' example_state)"
  by (simp add: model_defs example_defs)









text \<open>
  Claim C3, at the input where the code departs from it. The key file names an SDP
  pattern file that cannot be opened: \<^verbatim>\<open>load_sdp_pattern\<close> does not return the null
  pointer it returns for a pattern that does not parse, it faults in
  \<^verbatim>\<open>read_entire_file\<close>.
\<close>

theorem load_sdp_pattern_faults_on_missing_file:
  "fst (load_sdp_pattern example_config example_extern example_key_file
          (initial_state (example_files(''pattern.sdp'' := None)))) = Fault \<and>
   fst (load_sdp_pattern example_config example_extern example_key_file
          (initial_state (example_files(''pattern.sdp'' \<mapsto> ''garbage'')))) = Return None"
  by (simp add: model_defs example_defs)

text \<open>
  Claim C2, at the input where the code departs from it. The file asks for port 9191 and
  \<^verbatim>\<open>load_config\<close> stores 9191 in \<open>serverServicePort\<close>; the server is constructed with
  the compiled default 9090 and listens there.
\<close>

theorem service_listens_on_compiled_default:
  "returns (load_config example_config example_extern ''kurento.conf'' example_state) \<and>
   serverServicePort
     (final (load_config example_config example_extern ''kurento.conf'' example_state)) = 9191 \<and>
   p_server (create_media_server_service example_config example_extern
     (final (load_config example_config example_extern ''kurento.conf'' example_state))) =
     Some \<lparr>port = 9090\<rparr> \<and>
   last (events (create_media_server_service example_config example_extern
     (final (load_config example_config example_extern ''kurento.conf'' example_state)))) =
     Listen 9090 True"
  by (simp add: model_defs example_defs create_media_server_service_def)

lemma create_media_server_service_port:
  "p_server (create_media_server_service C E s) = Some \<lparr>port = MEDIA_SERVER_SERVICE_PORT C\<rparr>"
  by (simp add: create_media_server_service_def Let_def split: serve_outcome.splits)

text \<open>
  Claim C10, at the input where the code departs from it. The configuration file loads
  and names an SDP pattern file that cannot be opened: \<^verbatim>\<open>load_config\<close> faults inside
  \<^verbatim>\<open>load_sdp_pattern\<close>, before the lines that print the key file back, and the file
  keeps the text it had.
\<close>

theorem load_config_fault_leaves_file:
  "key_file_load example_extern
     (config_text (initial_state (example_files(''pattern.sdp'' := None))) ''kurento.conf'') =
     Loaded example_key_file \<and>
   \<not> returns (load_config example_config example_extern ''kurento.conf''
        (initial_state (example_files(''pattern.sdp'' := None)))) \<and>
   files (final (load_config example_config example_extern ''kurento.conf''
        (initial_state (example_files(''pattern.sdp'' := None))))) ''kurento.conf'' =
     Some example_text"
  by (simp add: model_defs example_defs config_text_def)

lemma load_config_not_loaded:
  assumes "files s f = Some data"
    and "key_file_load E data = Not_loaded \<or> key_file_load E data = Load_error"
  shows "returns (load_config C E f s) \<and>
         files (final (load_config C E f s)) = files s \<and>
         serverAddress (final (load_config C E f s)) = MEDIA_SERVER_ADDRESS C \<and>
         serverServicePort (final (load_config C E f s)) = MEDIA_SERVER_SERVICE_PORT C"
  using assms
  by (auto simp: load_config_def load_config_open_def load_from_file_def Let_def
        set_default_server_config_def)

subsection \<open>The worker thread\<close>

text \<open>
  Claim C1, as the code has it. In every run of \<^verbatim>\<open>create_media_server_service\<close> the
  parent is sent \<^verbatim>\<open>SIGCONT\<close> exactly once, after the server object is constructed and
  before \<^verbatim>\<open>serve\<close> tries to bind the port, whether that then succeeds or fails.
\<close>

theorem readiness_sent_before_serve:
  "events (create_media_server_service C E s) =
     events s @
     [Gst_log INFO ''Starting MediaServerService'',
      Kill_parent SIGCONT,
      Listen (MEDIA_SERVER_SERVICE_PORT C) (serve E \<noteq> Bind_failed)] @
     (if serve E = Accept_loop_exited
      then [Gst_log INFO ''MediaServerService stopped finishing thread'']
      else [])"
  by (cases "serve E") (simp_all add: create_media_server_service_def Let_def gst_log_def)

text \<open>
  Claim C1 as it is stated fails when the bind fails: the notification has been sent by
  then.
\<close>

theorem readiness_sent_although_bind_failed:
  "events (create_media_server_service example_config (example_extern\<lparr>serve := Bind_failed\<rparr>)
     example_state) =
     [Gst_log INFO ''Starting MediaServerService'', Kill_parent 18, Listen 9090 False]"
  by (simp add: create_media_server_service_def Let_def gst_log_def SIGCONT_def
        example_config_def example_extern_def example_state_def initial_state_def)

lemma create_media_server_service_loop:
  "loop (create_media_server_service C E s) = loop s"
  by (cases "serve E") (simp_all add: create_media_server_service_def Let_def)

subsection \<open>The main loop\<close>

lemma iterate_while_idle:
  "is_running (loop s) \<Longrightarrow> sources (loop s) = [] \<Longrightarrow> iterate_while_running n s = None"
proof (induction n arbitrary: s)
  case 0
  then show ?case by simp
next
  case (Suc n)
  have "is_running (loop (main_context_iteration s))"
    and "sources (loop (main_context_iteration s)) = []"
    using Suc.prems by (simp_all add: main_context_iteration_def)
  then have "iterate_while_running n (main_context_iteration s) = None"
    by (rule Suc.IH)
  with Suc.prems show ?case by simp
qed

lemma main_run_loop_idle: "sources (loop s) = [] \<Longrightarrow> main_run_loop n s = None"
  by (simp add: main_run_loop_def main_loop_run_def iterate_while_idle)

lemma dispatch_quits:
  "cbs \<noteq> [] \<Longrightarrow>
   dispatch cbs s = ([], s\<lparr>loop := (loop s)\<lparr>is_running := False\<rparr>\<rparr>)"
proof (induction cbs arbitrary: s)
  case Nil
  then show ?case by simp
next
  case (Cons cb cbs)
  show ?case
  proof (cases cbs)
    case Nil
    then show ?thesis by (cases cb) (simp add: quit_loop_def)
  next
    case (Cons cb' cbs')
    then have "dispatch cbs (s\<lparr>loop := (loop s)\<lparr>is_running := False\<rparr>\<rparr>) =
        ([], s\<lparr>loop := (loop s)\<lparr>is_running := False\<rparr>\<rparr>)"
      using Cons.IH [of "s\<lparr>loop := (loop s)\<lparr>is_running := False\<rparr>\<rparr>"] by simp
    then show ?thesis by (cases cb) (simp add: quit_loop_def)
  qed
qed

lemma main_run_loop_quits:
  assumes "sources (loop s) \<noteq> []"
  shows "main_run_loop (Suc (Suc n)) s =
     Some (s\<lparr>loop := (loop s)\<lparr>is_running := False, sources := []\<rparr>, process := Exited 0\<rparr>)"
proof -
  let ?s = "s\<lparr>loop := (loop s)\<lparr>is_running := True\<rparr>\<rparr>"
  have "dispatch (sources (loop ?s)) ?s = ([], ?s\<lparr>loop := (loop ?s)\<lparr>is_running := False\<rparr>\<rparr>)"
    using assms by (intro dispatch_quits) simp
  then have "main_context_iteration ?s = s\<lparr>loop := (loop s)\<lparr>is_running := False, sources := []\<rparr>\<rparr>"
    by (simp add: main_context_iteration_def)
  then show ?thesis
    by (simp add: main_run_loop_def main_loop_run_def)
qed

subsection \<open>The signal handler\<close>

lemma bt_frames_loop: "loop (snd (bt_frames E i frames s)) = loop s"
proof (induction frames arbitrary: i s)
  case Nil
  then show ?case by simp
next
  case (Cons fr frames)
  obtain addr message where fr: "fr = (addr, message)" by (cases fr)
  show ?case
  proof (cases "CHR ''('' \<in> set message")
    case True
    then show ?thesis by (simp add: fr Cons.IH Let_def)
  next
    case False
    then show ?thesis
      by (cases "exe s"; cases "readlink_exe E")
         (simp_all add: fr Cons.IH Let_def getExecutableName_def initialiseExecutableName_def)
  qed
qed

lemma bt_sighandler_trace_loop: "loop (bt_sighandler_trace E sig s) = loop s"
proof -
  let ?s = "s\<lparr>events := events s @ [G_print_execution_path]\<rparr>"
  let ?fr = "drop 1 (take 35 (backtrace_symbols E))"
  obtain ok s' where r: "bt_frames E 1 ?fr ?s = (ok, s')"
    by (cases "bt_frames E 1 ?fr ?s")
  have "loop (snd (bt_frames E 1 ?fr ?s)) = loop ?s"
    by (rule bt_frames_loop)
  then have "loop s' = loop s"
    unfolding r by simp
  then show ?thesis
    unfolding bt_sighandler_trace_def Let_def r by (cases ok) simp_all
qed





lemma sigpipe_exits_without_executable_name:
  "process (bt_sighandler (example_extern\<lparr>readlink_exe := None\<rparr>) SIGPIPE 0 example_state) =
     Exited 1"
  by (simp add: bt_sighandler_def bt_sighandler_trace_def Let_def getExecutableName_def
        initialiseExecutableName_def gst_log_def SIGPIPE_def SIGSEGV_def SIGKILL_def SIGINT_def
        example_extern_def example_state_def initial_state_def)

subsection \<open>Who asks the loop to stop\<close>

lemma load_config_loop: "loop (final (load_config C E f s)) = loop s"
proof -
  have o: "loop (load_config_open E f s) = loop s"
    by (simp add: load_config_open_def Let_def)
  have a: "loop (load_config_address C E s1) = loop s1" for s1 :: "'a state"
    by (simp add: load_config_address_def Let_def split: sum.splits)
  have p: "loop (load_config_port C E s1) = loop s1" for s1 :: "'a state"
    by (simp add: load_config_port_def load_config_port_catch_def Let_def split: sum.splits)
  have l: "loop (snd (load_sdp_pattern C E kf s1)) = loop s1" for kf and s1 :: "'a state"
    by (simp add: load_sdp_pattern_def Let_def split: sum.splits result.splits option.splits)
  have d: "loop (final (load_config_sdp C E s1)) = loop s1" for s1 :: "'a state"
  proof -
    obtain r s2 where r: "load_sdp_pattern C E (configFile s1) s1 = (r, s2)"
      by (cases "load_sdp_pattern C E (configFile s1) s1")
    have "loop s2 = loop s1"
      using l [of "configFile s1" s1] unfolding r by simp
    then show ?thesis
      by (cases r) (simp_all add: load_config_sdp_def r)
  qed
  have v: "loop (load_config_save E f s1) = loop s1" for s1 :: "'a state"
    by (simp add: load_config_save_def Let_def)
  show ?thesis
  proof (cases "load_from_file E (files (load_config_open E f s)) f")
    case (Loaded kf)
    let ?s2 = "load_config_port C E (load_config_address C E ((load_config_open E f s)\<lparr>configFile := kf\<rparr>))"
    have "loop (final (load_config_sdp C E ?s2)) = loop s"
      by (simp add: d p a o)
    then show ?thesis
      by (cases "load_config_sdp C E ?s2") (simp_all add: load_config_def Loaded v)
  next
    case Not_loaded
    then show ?thesis by (simp add: load_config_def set_default_server_config_def o)
  next
    case Load_error
    then show ?thesis by (simp add: load_config_def set_default_server_config_def o)
  qed
qed

text \<open>
  Claim C8, as the code has it. The only place that attaches the quit callback to the loop
  is the handler's branch for \<^verbatim>\<open>SIGINT\<close> (and \<^verbatim>\<open>SIGKILL\<close>): it attaches one, and the
  loop, run from there, dispatches it, stops, and \<^verbatim>\<open>main\<close> returns 0. The worker thread
  leaves the loop as it is, also when the accept loop has ended and the thread exits: a
  loop without a source attached is then still without one, and does not return however
  long it runs. Loading the configuration and handling any other signal do not touch
  the loop either.
\<close>

theorem shutdown_request_only_from_interrupt:
  "loop (create_media_server_service C E s) = loop s \<and>
   (sources (loop s) = [] \<longrightarrow> main_run_loop n (create_media_server_service C E s) = None) \<and>
   (sig = SIGINT \<or> sig = SIGKILL \<longrightarrow>
      loop (bt_sighandler E sig si_addr s) =
        (loop s)\<lparr>sources := sources (loop s) @ [Quit_loop]\<rparr> \<and>
      main_run_loop (Suc (Suc n)) (bt_sighandler E sig si_addr s) =
        Some (s\<lparr>loop := (loop s)\<lparr>is_running := False, sources := []\<rparr>,
                process := Exited 0\<rparr>)) \<and>
   (sig \<noteq> SIGINT \<and> sig \<noteq> SIGKILL \<longrightarrow> loop (bt_sighandler E sig si_addr s) = loop s) \<and>
   loop (final (load_config C E file_name s)) = loop s"
proof -
  have w: "loop (create_media_server_service C E s) = loop s"
    by (rule create_media_server_service_loop)
  have idle: "main_run_loop n (create_media_server_service C E s) = None"
    if "sources (loop s) = []"
    using that by (simp add: main_run_loop_idle w)
  have intr: "bt_sighandler E sig si_addr s = attach_idle_source Quit_loop s"
    if "sig = SIGINT \<or> sig = SIGKILL"
    using that by (auto simp: bt_sighandler_def SIGINT_def SIGKILL_def SIGSEGV_def)
  have quit: "main_run_loop (Suc (Suc n)) (attach_idle_source Quit_loop s) =
      Some (s\<lparr>loop := (loop s)\<lparr>is_running := False, sources := []\<rparr>, process := Exited 0\<rparr>)"
    using main_run_loop_quits [of "attach_idle_source Quit_loop s" n]
    by (simp add: attach_idle_source_def)
  have other: "loop (bt_sighandler E sig si_addr s) = loop s"
    if "sig \<noteq> SIGINT \<and> sig \<noteq> SIGKILL"
    using that by (simp add: bt_sighandler_def bt_sighandler_trace_loop)
  show ?thesis
    using w idle intr quit other load_config_loop [of C E file_name s]
    by (auto simp: attach_idle_source_def)
qed

theorem shutdown_request_only_from_interrupt_witness:
  "sources (loop (example_state :: string state)) = [] \<and>
   main_run_loop (Suc (Suc 0))
     (create_media_server_service example_config
        (example_extern\<lparr>serve := Accept_loop_exited\<rparr>) example_state) = None \<and>
   map_option process
     (main_run_loop (Suc (Suc 0)) (bt_sighandler example_extern SIGINT 0 example_state)) =
     Some (Exited 0) \<and>
   loop (bt_sighandler example_extern SIGPIPE 0 example_state) = loop example_state"
proof -
  have e: "sources (loop (example_state :: string state)) = []"
    by (simp add: example_state_def initial_state_def)
  have p: "SIGPIPE \<noteq> SIGINT \<and> SIGPIPE \<noteq> SIGKILL"
    by (simp add: SIGPIPE_def SIGINT_def SIGKILL_def)
  show ?thesis
    using e p
      shutdown_request_only_from_interrupt [of example_config
        "example_extern\<lparr>serve := Accept_loop_exited\<rparr>" example_state "Suc (Suc 0)" SIGPIPE 0
        "''kurento.conf''"]
      shutdown_request_only_from_interrupt [of example_config example_extern example_state
        0 SIGPIPE 0 "''kurento.conf''"]
      shutdown_request_only_from_interrupt [of example_config example_extern example_state
        0 SIGINT 0 "''kurento.conf''"]
    by simp
qed

text \<open>
  Claim C8 as it is stated fails when the accept loop ends by itself: the worker thread
  exits, no quit callback is attached, and the loop runs on.
\<close>

theorem worker_exit_leaves_loop_running:
  "worker (create_media_server_service example_config
     (example_extern\<lparr>serve := Accept_loop_exited\<rparr>) example_state) = Thread_exit \<and>
   loop (create_media_server_service example_config
     (example_extern\<lparr>serve := Accept_loop_exited\<rparr>) example_state) =
     \<lparr>is_running = True, sources = []\<rparr> \<and>
   main_run_loop 100 (create_media_server_service example_config
     (example_extern\<lparr>serve := Accept_loop_exited\<rparr>) example_state) = None"
proof -
  let ?s = "create_media_server_service example_config
     (example_extern\<lparr>serve := Accept_loop_exited\<rparr>) (example_state :: string state)"
  have w: "worker ?s = Thread_exit"
    by (simp add: create_media_server_service_def Let_def example_extern_def)
  have l: "loop ?s = \<lparr>is_running = True, sources = []\<rparr>"
    by (simp add: create_media_server_service_loop example_state_def initial_state_def)
  then have "sources (loop ?s) = []"
    by simp
  then have "main_run_loop 100 ?s = None"
    by (rule main_run_loop_idle)
  with w l show ?thesis
    by simp
qed

end
